theory Spec2Isabelle
  imports Main
begin

section \<open>The payment agent of FLUX-exSat (class PaymentAgent)\<close>

text \<open>
  The agent is one TypeScript class with two mutable fields (\<open>isProcessing\<close> and
  \<open>retryQueue\<close>), a constant \<open>MAX_RETRIES\<close>, and asynchronous methods that talk to
  a contract through ethers and to a webhook through axios. The model is explicit state
  passing:
  \<^item> a thrown error (a rejected promise) is \<open>Inl e\<close>, a resolved promise is \<open>Inr v\<close>;
  \<^item> the outside world is a record of answer functions, indexed by the number of outside
    interactions made so far, so that the contract and the webhook may answer
    differently at every call;
  \<^item> every outside interaction is appended to \<open>calls\<close>, and the console lines that tell
    the branches apart are appended to \<open>console\<close>;
  \<^item> one method runs to its end before the next one starts (the timers' callbacks are
    not interleaved).
\<close>

subsection \<open>Data\<close>

text \<open>A payment identifier is a JavaScript \<open>bigint\<close>.\<close>

type_synonym paymentId = int

text \<open>A thrown value; only its message is ever read.\<close>

datatype error = Error string

text \<open>The fields of \<open>recurringPayments(id)\<close> that the agent reads.\<close>

record payment =
  recipient :: string
  amount :: int
  interval :: int
  lastPayment :: int
  isActive :: bool

text \<open>
  \<open>config.ts\<close>. The field \<open>gasLimitBuffer\<close> (a float that no code reads) is left out;
  \<open>rpcUrl\<close>, \<open>payrollContractAddress\<close> and \<open>privateKey\<close> are read by the constructor only.
\<close>

record config =
  rpcUrl :: string
  payrollContractAddress :: string
  privateKey :: string
  webhookUrl :: string
  lowBalanceThreshold :: string
  checkInterval :: int
  retryLimit :: int
  batchProcessingThreshold :: int

text \<open>The transaction object returned by a submission: its hash.\<close>

datatype tx = Tx string

text \<open>
  The object given to \<open>sendWebhook\<close>: its \<open>type\<close>, its \<open>title\<close> and the payment
  identifiers it carries (\<open>paymentId\<close> or \<open>paymentIds\<close>). The message, recipient,
  amount, hash and timestamp fields are derived from these and from the payment record
  and are not modelled.
\<close>

datatype ntype = Info | Success | Warning | Failure

record notification =
  ntype :: ntype
  title :: string
  ids :: "paymentId list"

text \<open>Interactions with the outside, in the order they are made.\<close>

datatype call =
    GetActivePaymentIds
  | CanProcessPayment paymentId
  | RecurringPayments paymentId
  | ProcessRecurringPayment paymentId
  | ProcessMultiplePayments "paymentId list"
  | TxWait tx
  | GetBalance
  | GetContractBalance
  | AxiosPost notification

text \<open>The console lines that identify a branch.\<close>

datatype logline =
    LogAlreadyProcessing
  | LogProcessing paymentId
  | LogInactive paymentId
  | LogNotDueYet paymentId int
  | LogCantProcess paymentId
  | LogErrorChecking paymentId
  | LogErrorInCheck
  | LogErrorProcessing paymentId
  | LogAddedToRetry paymentId nat
  | LogFailedAfterMax paymentId
  | LogFallingBack
  | LogRetrying paymentId nat
  | LogKeepInQueue paymentId
  | LogErrorRetrying paymentId
  | LogRemovingFromQueue paymentId
  | LogLowWalletBalance
  | LogInsufficientBalance paymentId int
  | LogErrorBalances
  | LogInterval int nat
  | LogRecommendBatches int
  | LogErrorAnalyzing
  | LogWebhookSent string
  | LogWebhookError

text \<open>
  The outside world. Each answer depends on the number of interactions made before it
  (the field \<open>clock\<close> of the agent's state) and on the arguments of the call.
  \<open>dateNow\<close> is \<open>Date.now()\<close>, in milliseconds; \<open>parseEther\<close> is the function of
  the ethers library, which throws on a string that is not a decimal number.
\<close>

record world =
  onGetActivePaymentIds :: "nat \<Rightarrow> error + paymentId list"
  onCanProcessPayment :: "nat \<Rightarrow> paymentId \<Rightarrow> error + bool"
  onRecurringPayments :: "nat \<Rightarrow> paymentId \<Rightarrow> error + payment"
  onProcessRecurringPayment :: "nat \<Rightarrow> paymentId \<Rightarrow> error + tx"
  onProcessMultiplePayments :: "nat \<Rightarrow> paymentId list \<Rightarrow> error + tx"
  onTxWait :: "nat \<Rightarrow> tx \<Rightarrow> error + unit"
  onGetBalance :: "nat \<Rightarrow> error + int"
  onGetContractBalance :: "nat \<Rightarrow> error + int"
  onAxiosPost :: "nat \<Rightarrow> notification \<Rightarrow> error + unit"
  dateNow :: "nat \<Rightarrow> int"
  parseEther :: "string \<Rightarrow> error + int"

text \<open>
  The agent's state. \<open>retryQueue\<close> is a JavaScript \<open>Map\<close>, which keeps its keys in
  insertion order: an association list. Its keys are \<open>paymentId.toString()\<close> in the
  source, converted back with \<open>BigInt\<close> by the drain; the conversion is one-to-one, and
  the model keys the list by the identifier itself.
\<close>

record agent =
  isProcessing :: bool
  retryQueue :: "(paymentId \<times> nat) list"
  clock :: nat
  calls :: "call list"
  console :: "logline list"

definition MAX_RETRIES :: nat where
  "MAX_RETRIES = 3"

text \<open>The state after the constructor.\<close>

definition initial :: agent where
  "initial = \<lparr>isProcessing = False, retryQueue = [], clock = 0, calls = [], console = []\<rparr>"

subsection \<open>The operations of Map\<close>

fun mget :: "(paymentId \<times> nat) list \<Rightarrow> paymentId \<Rightarrow> nat option" where
  "mget [] k = None"
| "mget ((k', v) # q) k = (if k' = k then Some v else mget q k)"

text \<open>\<open>set\<close> overwrites in place, or appends a new key at the end.\<close>

fun mset :: "paymentId \<Rightarrow> nat \<Rightarrow> (paymentId \<times> nat) list \<Rightarrow> (paymentId \<times> nat) list" where
  "mset k v [] = [(k, v)]"
| "mset k v ((k', v') # q) = (if k' = k then (k, v) # q else (k', v') # mset k v q)"

fun mdelete :: "paymentId \<Rightarrow> (paymentId \<times> nat) list \<Rightarrow> (paymentId \<times> nat) list" where
  "mdelete k [] = []"
| "mdelete k ((k', v) # q) = (if k' = k then mdelete k q else (k', v) # mdelete k q)"

subsection \<open>Outside interactions\<close>

definition extCall :: "call \<Rightarrow> agent \<Rightarrow> agent" where
  "extCall c s = s\<lparr>clock := Suc (clock s), calls := calls s @ [c]\<rparr>"

definition logLine :: "logline \<Rightarrow> agent \<Rightarrow> agent" where
  "logLine l s = s\<lparr>console := console s @ [l]\<rparr>"

definition getActivePaymentIds :: "world \<Rightarrow> agent \<Rightarrow> (error + paymentId list) \<times> agent" where
  "getActivePaymentIds w s = (onGetActivePaymentIds w (clock s), extCall GetActivePaymentIds s)"

definition canProcessPayment :: "world \<Rightarrow> paymentId \<Rightarrow> agent \<Rightarrow> (error + bool) \<times> agent" where
  "canProcessPayment w i s = (onCanProcessPayment w (clock s) i, extCall (CanProcessPayment i) s)"

definition recurringPayments :: "world \<Rightarrow> paymentId \<Rightarrow> agent \<Rightarrow> (error + payment) \<times> agent" where
  "recurringPayments w i s = (onRecurringPayments w (clock s) i, extCall (RecurringPayments i) s)"

definition processRecurringPayment :: "world \<Rightarrow> paymentId \<Rightarrow> agent \<Rightarrow> (error + tx) \<times> agent" where
  "processRecurringPayment w i s =
     (onProcessRecurringPayment w (clock s) i, extCall (ProcessRecurringPayment i) s)"

definition processMultiplePayments ::
  "world \<Rightarrow> paymentId list \<Rightarrow> agent \<Rightarrow> (error + tx) \<times> agent" where
  "processMultiplePayments w is s =
     (onProcessMultiplePayments w (clock s) is, extCall (ProcessMultiplePayments is) s)"

definition txWait :: "world \<Rightarrow> tx \<Rightarrow> agent \<Rightarrow> (error + unit) \<times> agent" where
  "txWait w t s = (onTxWait w (clock s) t, extCall (TxWait t) s)"

definition getBalance :: "world \<Rightarrow> agent \<Rightarrow> (error + int) \<times> agent" where
  "getBalance w s = (onGetBalance w (clock s), extCall GetBalance s)"

definition getContractBalance :: "world \<Rightarrow> agent \<Rightarrow> (error + int) \<times> agent" where
  "getContractBalance w s = (onGetContractBalance w (clock s), extCall GetContractBalance s)"

text \<open>
  \<open>sendWebhook\<close>: nothing without a webhook URL (the empty string is falsy); otherwise
  one post, whose failure is caught and logged.
\<close>

definition sendWebhook :: "config \<Rightarrow> world \<Rightarrow> notification \<Rightarrow> agent \<Rightarrow> agent" where
  "sendWebhook cfg w d s =
     (if webhookUrl cfg = [] then s
      else (case onAxiosPost w (clock s) d of
              Inr u \<Rightarrow> logLine (LogWebhookSent (title d)) (extCall (AxiosPost d) s)
            | Inl e \<Rightarrow> logLine LogWebhookError (extCall (AxiosPost d) s)))"

subsection \<open>processSinglePayment\<close>

text \<open>The \<open>try\<close> block: read the record, announce, submit, wait, announce, delete.\<close>

definition processSinglePayment_try ::
  "config \<Rightarrow> world \<Rightarrow> paymentId \<Rightarrow> agent \<Rightarrow> (error + unit) \<times> agent" where
  "processSinglePayment_try cfg w i s =
     (case recurringPayments w i (logLine (LogProcessing i) s) of
        (Inl e, s1) \<Rightarrow> (Inl e, s1)
      | (Inr p, s1) \<Rightarrow>
          (let s2 = (if webhookUrl cfg \<noteq> []
                     then sendWebhook cfg w
                            \<lparr>ntype = Info, title = ''Processing Payment'', ids = [i]\<rparr> s1
                     else s1)
           in case processRecurringPayment w i s2 of
                (Inl e, s3) \<Rightarrow> (Inl e, s3)
              | (Inr t, s3) \<Rightarrow>
                  (case txWait w t s3 of
                     (Inl e, s4) \<Rightarrow> (Inl e, s4)
                   | (Inr u, s4) \<Rightarrow>
                       (let s5 = (if webhookUrl cfg \<noteq> []
                                  then sendWebhook cfg w
                                         \<lparr>ntype = Success, title = ''Payment Successful'',
                                          ids = [i]\<rparr> s4
                                  else s4)
                        in (Inr (), s5\<lparr>retryQueue := mdelete i (retryQueue s5)\<rparr>)))))"

text \<open>
  The \<open>catch\<close> block. \<open>get(..) || 0\<close> reads an absent key, and a stored 0, as 0. The
  record read of the last branch is not inside any \<open>try\<close>: its error leaves the method.
\<close>

definition processSinglePayment_catch ::
  "config \<Rightarrow> world \<Rightarrow> paymentId \<Rightarrow> agent \<Rightarrow> (error + unit) \<times> agent" where
  "processSinglePayment_catch cfg w i s0 =
     (let s = logLine (LogErrorProcessing i) s0;
          currentRetries = (case mget (retryQueue s) i of None \<Rightarrow> 0 | Some n \<Rightarrow> n)
      in if currentRetries < MAX_RETRIES
         then (Inr (), logLine (LogAddedToRetry i (currentRetries + 1))
                         (s\<lparr>retryQueue := mset i (currentRetries + 1) (retryQueue s)\<rparr>))
         else (let s1 = logLine (LogFailedAfterMax i) s
               in if webhookUrl cfg \<noteq> []
                  then (case recurringPayments w i s1 of
                          (Inl e, s2) \<Rightarrow> (Inl e, s2)
                        | (Inr p, s2) \<Rightarrow>
                            (Inr (), sendWebhook cfg w
                                       \<lparr>ntype = Failure, title = ''Payment Failed'',
                                        ids = [i]\<rparr> s2))
                  else (Inr (), s1)))"

definition processSinglePayment ::
  "config \<Rightarrow> world \<Rightarrow> paymentId \<Rightarrow> agent \<Rightarrow> (error + unit) \<times> agent" where
  "processSinglePayment cfg w i s =
     (case processSinglePayment_try cfg w i s of
        (Inl e, s1) \<Rightarrow> processSinglePayment_catch cfg w i s1
      | (Inr u, s1) \<Rightarrow> (Inr u, s1))"

subsection \<open>processBatchPayments\<close>

text \<open>
  \<open>for (const paymentId of ...) await this.processSinglePayment(paymentId)\<close>, the loop
  of the fallback and of the individual mode. It is inside no \<open>try\<close> of its own: a
  rejected call ends the loop.
\<close>

fun processIndividually ::
  "config \<Rightarrow> world \<Rightarrow> paymentId list \<Rightarrow> agent \<Rightarrow> (error + unit) \<times> agent" where
  "processIndividually cfg w [] s = (Inr (), s)"
| "processIndividually cfg w (i # is) s =
     (case processSinglePayment cfg w i s of
        (Inl e, s1) \<Rightarrow> (Inl e, s1)
      | (Inr u, s1) \<Rightarrow> processIndividually cfg w is s1)"

definition processBatchPayments_try ::
  "config \<Rightarrow> world \<Rightarrow> paymentId list \<Rightarrow> agent \<Rightarrow> (error + unit) \<times> agent" where
  "processBatchPayments_try cfg w is s =
     (case processMultiplePayments w is s of
        (Inl e, s1) \<Rightarrow> (Inl e, s1)
      | (Inr t, s1) \<Rightarrow>
          (case txWait w t s1 of
             (Inl e, s2) \<Rightarrow> (Inl e, s2)
           | (Inr u, s2) \<Rightarrow>
               (let s3 = (if webhookUrl cfg \<noteq> []
                          then sendWebhook cfg w
                                 \<lparr>ntype = Success, title = ''Batch Payments Processed'',
                                  ids = is\<rparr> s2
                          else s2)
                in (Inr (), s3\<lparr>retryQueue := fold mdelete is (retryQueue s3)\<rparr>))))"

definition processBatchPayments ::
  "config \<Rightarrow> world \<Rightarrow> paymentId list \<Rightarrow> agent \<Rightarrow> (error + unit) \<times> agent" where
  "processBatchPayments cfg w is s =
     (case processBatchPayments_try cfg w is s of
        (Inl e, s1) \<Rightarrow> processIndividually cfg w is (logLine LogFallingBack s1)
      | (Inr u, s1) \<Rightarrow> (Inr u, s1))"

subsection \<open>processRetryQueue\<close>

text \<open>The \<open>try\<close> block of one entry; \<open>continue\<close> is the branch of \<open>\<not> canProcess\<close>.\<close>

definition retryEntry_try ::
  "config \<Rightarrow> world \<Rightarrow> paymentId \<Rightarrow> nat \<Rightarrow> agent \<Rightarrow> (error + unit) \<times> agent" where
  "retryEntry_try cfg w i retryCount s =
     (case canProcessPayment w i (logLine (LogRetrying i retryCount) s) of
        (Inl e, s1) \<Rightarrow> (Inl e, s1)
      | (Inr canProcess, s1) \<Rightarrow>
          if \<not> canProcess then (Inr (), logLine (LogKeepInQueue i) s1)
          else (case processRecurringPayment w i s1 of
                  (Inl e, s2) \<Rightarrow> (Inl e, s2)
                | (Inr t, s2) \<Rightarrow>
                    (case txWait w t s2 of
                       (Inl e, s3) \<Rightarrow> (Inl e, s3)
                     | (Inr u, s3) \<Rightarrow>
                         if webhookUrl cfg \<noteq> []
                         then (case recurringPayments w i s3 of
                                 (Inl e, s4) \<Rightarrow> (Inl e, s4)
                               | (Inr p, s4) \<Rightarrow>
                                   (let s5 = sendWebhook cfg w
                                               \<lparr>ntype = Success,
                                                title = ''Retry Payment Successful'',
                                                ids = [i]\<rparr> s4
                                    in (Inr (), s5\<lparr>retryQueue := mdelete i (retryQueue s5)\<rparr>)))
                         else (Inr (), s3\<lparr>retryQueue := mdelete i (retryQueue s3)\<rparr>))))"

text \<open>
  The \<open>catch\<close> block of one entry: it counts from the \<open>retryCount\<close> that the iteration
  read. The record read of the deleting branch is inside no \<open>try\<close>.
\<close>

definition retryEntry_catch ::
  "config \<Rightarrow> world \<Rightarrow> paymentId \<Rightarrow> nat \<Rightarrow> agent \<Rightarrow> (error + unit) \<times> agent" where
  "retryEntry_catch cfg w i retryCount s0 =
     (let s = logLine (LogErrorRetrying i) s0;
          newRetryCount = retryCount + 1
      in if newRetryCount \<ge> MAX_RETRIES
         then (let s1 = (logLine (LogRemovingFromQueue i) s)
                          \<lparr>retryQueue := mdelete i (retryQueue s)\<rparr>
               in if webhookUrl cfg \<noteq> []
                  then (case recurringPayments w i s1 of
                          (Inl e, s2) \<Rightarrow> (Inl e, s2)
                        | (Inr p, s2) \<Rightarrow>
                            (Inr (), sendWebhook cfg w
                                       \<lparr>ntype = Failure, title = ''Retry Payment Failed'',
                                        ids = [i]\<rparr> s2))
                  else (Inr (), s1))
         else (Inr (), s\<lparr>retryQueue := mset i newRetryCount (retryQueue s)\<rparr>))"

definition retryEntry ::
  "config \<Rightarrow> world \<Rightarrow> paymentId \<Rightarrow> nat \<Rightarrow> agent \<Rightarrow> (error + unit) \<times> agent" where
  "retryEntry cfg w i retryCount s =
     (case retryEntry_try cfg w i retryCount s of
        (Inl e, s1) \<Rightarrow> retryEntry_catch cfg w i retryCount s1
      | (Inr u, s1) \<Rightarrow> (Inr u, s1))"

text \<open>
  The loop over \<open>this.retryQueue.entries()\<close>. The body changes the entry it visits
  and no other, and the keys of a Map are distinct, so the entries still to be visited
  are those that the map had when the loop began.
\<close>

fun retryLoop ::
  "config \<Rightarrow> world \<Rightarrow> (paymentId \<times> nat) list \<Rightarrow> agent \<Rightarrow> (error + unit) \<times> agent" where
  "retryLoop cfg w [] s = (Inr (), s)"
| "retryLoop cfg w ((i, retryCount) # es) s =
     (case retryEntry cfg w i retryCount s of
        (Inl e, s1) \<Rightarrow> (Inl e, s1)
      | (Inr u, s1) \<Rightarrow> retryLoop cfg w es s1)"

definition processRetryQueue :: "config \<Rightarrow> world \<Rightarrow> agent \<Rightarrow> (error + unit) \<times> agent" where
  "processRetryQueue cfg w s =
     (if length (retryQueue s) = 0 then (Inr (), s)
      else retryLoop cfg w (retryQueue s) s)"

subsection \<open>checkAndProcessPayments\<close>

text \<open>
  The three-way test on a payment that the contract refuses, on
  \<open>Number(lastPayment) + Number(interval)\<close> and \<open>Math.floor(Date.now() / 1000)\<close>.
  \<open>Date.now()\<close> is below \<open>2^53\<close>, and a sum of two non-negative integers that
  \<open>Number\<close> rounds is at least \<open>2^53\<close> before and after rounding, so the comparison is
  the one on the integers.
\<close>

datatype timing = Inactive | NotDueYet int | DueButBlocked

definition classify :: "payment \<Rightarrow> int \<Rightarrow> timing" where
  "classify p now =
     (let nextPaymentTime = lastPayment p + interval p
      in if \<not> isActive p then Inactive
         else if now < nextPaymentTime then NotDueYet (nextPaymentTime - now)
         else DueButBlocked)"

text \<open>
  The \<open>try\<close> block of the loop over the active identifiers; the result says whether the
  identifier was pushed on \<open>processablePayments\<close>.
\<close>

definition checkPayment_try ::
  "config \<Rightarrow> world \<Rightarrow> paymentId \<Rightarrow> agent \<Rightarrow> (error + bool) \<times> agent" where
  "checkPayment_try cfg w i s =
     (case canProcessPayment w i s of
        (Inl e, s1) \<Rightarrow> (Inl e, s1)
      | (Inr canProcess, s1) \<Rightarrow>
          if canProcess then (Inr True, s1)
          else (case recurringPayments w i s1 of
                  (Inl e, s2) \<Rightarrow> (Inl e, s2)
                | (Inr p, s2) \<Rightarrow>
                    (let nextPaymentTime = lastPayment p + interval p;
                         now = dateNow w (clock s2) div 1000
                     in case classify p now of
                          Inactive \<Rightarrow> (Inr False, logLine (LogInactive i) s2)
                        | NotDueYet timeUntilNext \<Rightarrow>
                            (Inr False, logLine (LogNotDueYet i timeUntilNext) s2)
                        | DueButBlocked \<Rightarrow>
                            (let s3 = logLine (LogCantProcess i) s2
                             in (Inr False,
                                 if webhookUrl cfg \<noteq> [] \<and> now \<ge> nextPaymentTime
                                 then sendWebhook cfg w
                                        \<lparr>ntype = Warning, title = ''Low Balance Alert'',
                                         ids = [i]\<rparr> s3
                                 else s3)))))"

text \<open>The loop: an error of one identifier is logged and the loop goes on.\<close>

fun checkEach ::
  "config \<Rightarrow> world \<Rightarrow> paymentId list \<Rightarrow> paymentId list \<Rightarrow> agent \<Rightarrow> paymentId list \<times> agent" where
  "checkEach cfg w [] processablePayments s = (processablePayments, s)"
| "checkEach cfg w (i # is) processablePayments s =
     (case checkPayment_try cfg w i s of
        (Inl e, s1) \<Rightarrow> checkEach cfg w is processablePayments (logLine (LogErrorChecking i) s1)
      | (Inr pushed, s1) \<Rightarrow>
          checkEach cfg w is
            (if pushed then processablePayments @ [i] else processablePayments) s1)"

text \<open>The choice between the batch and the individual mode (lines 122 to 135).\<close>

definition dispatch ::
  "config \<Rightarrow> world \<Rightarrow> paymentId list \<Rightarrow> agent \<Rightarrow> (error + unit) \<times> agent" where
  "dispatch cfg w processablePayments s =
     (if length processablePayments > 0
      then (if length processablePayments > 3
            then processBatchPayments cfg w processablePayments s
            else processIndividually cfg w processablePayments s)
      else (Inr (), s))"

definition checkAndProcessPayments_try ::
  "config \<Rightarrow> world \<Rightarrow> agent \<Rightarrow> (error + unit) \<times> agent" where
  "checkAndProcessPayments_try cfg w s0 =
     (case getActivePaymentIds w (s0\<lparr>isProcessing := True\<rparr>) of
        (Inl e, s1) \<Rightarrow> (Inl e, s1)
      | (Inr activePaymentIds, s1) \<Rightarrow>
          if length activePaymentIds = 0 then (Inr (), s1)
          else (case checkEach cfg w activePaymentIds [] s1 of
                  (processablePayments, s2) \<Rightarrow> dispatch cfg w processablePayments s2))"

text \<open>
  The guard, the \<open>catch\<close> that logs, and the \<open>finally\<close> that resets the flag on both
  ways out of the \<open>try\<close>.
\<close>

definition checkAndProcessPayments ::
  "config \<Rightarrow> world \<Rightarrow> agent \<Rightarrow> (error + unit) \<times> agent" where
  "checkAndProcessPayments cfg w s =
     (if isProcessing s then (Inr (), logLine LogAlreadyProcessing s)
      else (case checkAndProcessPayments_try cfg w s of
              (Inl e, s1) \<Rightarrow> (Inr (), (logLine LogErrorInCheck s1)\<lparr>isProcessing := False\<rparr>)
            | (Inr u, s1) \<Rightarrow> (Inr (), s1\<lparr>isProcessing := False\<rparr>)))"

subsection \<open>checkBalance\<close>

text \<open>
  The body of the loop over the active identifiers. \<open>timeUntilNext\<close> is computed as in
  the scan; a sum that \<open>Number\<close> rounds is far above 86400 before and after rounding.
\<close>

definition checkBalancePayment ::
  "config \<Rightarrow> world \<Rightarrow> int \<Rightarrow> paymentId \<Rightarrow> agent \<Rightarrow> (error + unit) \<times> agent" where
  "checkBalancePayment cfg w contractBalance i s =
     (case recurringPayments w i s of
        (Inl e, s1) \<Rightarrow> (Inl e, s1)
      | (Inr p, s1) \<Rightarrow>
          (let nextPaymentTime = lastPayment p + interval p;
               now = dateNow w (clock s1) div 1000;
               timeUntilNext = nextPaymentTime - now
           in if timeUntilNext \<le> 86400 \<and> timeUntilNext > 0
              then (if amount p > contractBalance
                    then (let s2 = logLine (LogInsufficientBalance i timeUntilNext) s1
                          in (Inr (),
                              if webhookUrl cfg \<noteq> []
                              then sendWebhook cfg w
                                     \<lparr>ntype = Warning,
                                      title = ''Upcoming Payment - Insufficient Balance'',
                                      ids = [i]\<rparr> s2
                              else s2))
                    else (Inr (), s1))
              else (Inr (), s1)))"

fun checkBalanceEach ::
  "config \<Rightarrow> world \<Rightarrow> int \<Rightarrow> paymentId list \<Rightarrow> agent \<Rightarrow> (error + unit) \<times> agent" where
  "checkBalanceEach cfg w contractBalance [] s = (Inr (), s)"
| "checkBalanceEach cfg w contractBalance (i # is) s =
     (case checkBalancePayment cfg w contractBalance i s of
        (Inl e, s1) \<Rightarrow> (Inl e, s1)
      | (Inr u, s1) \<Rightarrow> checkBalanceEach cfg w contractBalance is s1)"

definition checkBalance_try :: "config \<Rightarrow> world \<Rightarrow> agent \<Rightarrow> (error + unit) \<times> agent" where
  "checkBalance_try cfg w s =
     (case getBalance w s of
        (Inl e, s1) \<Rightarrow> (Inl e, s1)
      | (Inr walletBalance, s1) \<Rightarrow>
          (case parseEther w (lowBalanceThreshold cfg) of
             Inl e \<Rightarrow> (Inl e, s1)
           | Inr threshold \<Rightarrow>
               (let s2 = (if walletBalance < threshold
                          then (let s' = logLine LogLowWalletBalance s1
                                in if webhookUrl cfg \<noteq> []
                                   then sendWebhook cfg w
                                          \<lparr>ntype = Warning,
                                           title = ''Agent Wallet Low Balance'', ids = []\<rparr> s'
                                   else s')
                          else s1)
                in case getContractBalance w s2 of
                     (Inl e, s3) \<Rightarrow> (Inl e, s3)
                   | (Inr contractBalance, s3) \<Rightarrow>
                       (case getActivePaymentIds w s3 of
                          (Inl e, s4) \<Rightarrow> (Inl e, s4)
                        | (Inr activePaymentIds, s4) \<Rightarrow>
                            checkBalanceEach cfg w contractBalance activePaymentIds s4))))"

definition checkBalance :: "config \<Rightarrow> world \<Rightarrow> agent \<Rightarrow> (error + unit) \<times> agent" where
  "checkBalance cfg w s =
     (case checkBalance_try cfg w s of
        (Inl e, s1) \<Rightarrow> (Inr (), logLine LogErrorBalances s1)
      | (Inr u, s1) \<Rightarrow> (Inr u, s1))"

subsection \<open>analyzePaymentPatterns\<close>

text \<open>
  \<open>paymentsByInterval\<close> is an object keyed by \<open>payment.interval.toString()\<close>; the model
  keys it by the interval. \<open>Object.entries\<close> lists the keys that are array indices
  (0 to \<open>2^32 - 2\<close>) in ascending order, then the other keys in insertion order.
\<close>

fun pushByInterval ::
  "int \<Rightarrow> paymentId \<Rightarrow> (int \<times> paymentId list) list \<Rightarrow> (int \<times> paymentId list) list" where
  "pushByInterval k i [] = [(k, [i])]"
| "pushByInterval k i ((k', is) # g) =
     (if k' = k then (k, is @ [i]) # g else (k', is) # pushByInterval k i g)"

definition isArrayIndex :: "int \<Rightarrow> bool" where
  "isArrayIndex k = (0 \<le> k \<and> k < 4294967295)"

definition objectEntries :: "(int \<times> paymentId list) list \<Rightarrow> (int \<times> paymentId list) list" where
  "objectEntries g =
     sort_key fst (filter (\<lambda>e. isArrayIndex (fst e)) g) @ filter (\<lambda>e. \<not> isArrayIndex (fst e)) g"

fun groupEach ::
  "world \<Rightarrow> paymentId list \<Rightarrow> (int \<times> paymentId list) list \<Rightarrow> agent
     \<Rightarrow> (error + (int \<times> paymentId list) list) \<times> agent" where
  "groupEach w [] paymentsByInterval s = (Inr paymentsByInterval, s)"
| "groupEach w (i # is) paymentsByInterval s =
     (case recurringPayments w i s of
        (Inl e, s1) \<Rightarrow> (Inl e, s1)
      | (Inr p, s1) \<Rightarrow> groupEach w is (pushByInterval (interval p) i paymentsByInterval) s1)"

definition analyzePaymentPatterns_try :: "world \<Rightarrow> agent \<Rightarrow> (error + unit) \<times> agent" where
  "analyzePaymentPatterns_try w s =
     (case getActivePaymentIds w s of
        (Inl e, s1) \<Rightarrow> (Inl e, s1)
      | (Inr activePaymentIds, s1) \<Rightarrow>
          (case groupEach w activePaymentIds [] s1 of
             (Inl e, s2) \<Rightarrow> (Inl e, s2)
           | (Inr paymentsByInterval, s2) \<Rightarrow>
               (Inr (),
                fold logLine
                  (map (\<lambda>e. LogInterval (fst e) (length (snd e))) (objectEntries paymentsByInterval)
                   @ map (\<lambda>e. LogRecommendBatches (fst e))
                       (filter (\<lambda>e. length (snd e) > 3) (objectEntries paymentsByInterval)))
                  s2)))"

definition analyzePaymentPatterns :: "world \<Rightarrow> agent \<Rightarrow> (error + unit) \<times> agent" where
  "analyzePaymentPatterns w s =
     (case analyzePaymentPatterns_try w s of
        (Inl e, s1) \<Rightarrow> (Inr (), logLine LogErrorAnalyzing s1)
      | (Inr u, s1) \<Rightarrow> (Inr u, s1))"

subsection \<open>Runs of the agent\<close>

text \<open>
  The four schedules of \<open>start\<close> and of the script: a firing calls one method. The
  scheduler goes on whether the promise resolved or not; a run returns the outcome of
  every firing and the last state.
\<close>

datatype firing = ScanTick | BalanceTick | DrainTick | AnalysisTick

fun fire :: "config \<Rightarrow> world \<Rightarrow> firing \<Rightarrow> agent \<Rightarrow> (error + unit) \<times> agent" where
  "fire cfg w ScanTick s = checkAndProcessPayments cfg w s"
| "fire cfg w BalanceTick s = checkBalance cfg w s"
| "fire cfg w DrainTick s = processRetryQueue cfg w s"
| "fire cfg w AnalysisTick s = analyzePaymentPatterns w s"

fun run :: "config \<Rightarrow> world \<Rightarrow> firing list \<Rightarrow> agent \<Rightarrow> (error + unit) list \<times> agent" where
  "run cfg w [] s = ([], s)"
| "run cfg w (f # fs) s =
     (case fire cfg w f s of
        (r, s1) \<Rightarrow> (case run cfg w fs s1 of (rs, s2) \<Rightarrow> (r # rs, s2)))"





text \<open>The batch submissions and the single submissions among a list of interactions.\<close>

fun isBatchCall :: "call \<Rightarrow> bool" where
  "isBatchCall (ProcessMultiplePayments is) = True"
| "isBatchCall c = False"

definition batchCalls :: "call list \<Rightarrow> call list" where
  "batchCalls cs = filter isBatchCall cs"

definition submissionsOf :: "paymentId \<Rightarrow> call list \<Rightarrow> nat" where
  "submissionsOf i cs = length (filter (\<lambda>c. c = ProcessRecurringPayment i) cs)"

text \<open>The identifiers that entered the single path, in order (its first console line).\<close>

fun singlePathEntries :: "logline list \<Rightarrow> paymentId list" where
  "singlePathEntries [] = []"
| "singlePathEntries (LogProcessing i # ls) = i # singlePathEntries ls"
| "singlePathEntries (l # ls) = singlePathEntries ls"

subsection \<open>Configurations and outside behaviours for concrete runs\<close>

definition testConfig :: config where
  "testConfig =
     \<lparr>rpcUrl = ''http://localhost:8545'', payrollContractAddress = ''0xc0'',
      privateKey = ''0x01'', webhookUrl = ''http://localhost:3000/webhook'',
      lowBalanceThreshold = ''0.1'', checkInterval = 60, retryLimit = 3,
      batchProcessingThreshold = 3\<rparr>"

definition testPayment :: payment where
  "testPayment =
     \<lparr>recipient = ''0xbeef'', amount = 5, interval = 3600, lastPayment = 1000,
      isActive = True\<rparr>"

text \<open>
  An outside whose reads (the list of identifiers, the eligibility, the record) answer
  before interaction number \<open>downAt\<close> and fail from then on, and whose submissions are all
  accepted or all refused. The webhook accepts every post. Balances are in a unit of
  which \<open>0.1\<close> ether is 100.
\<close>

definition testWorld :: "paymentId list \<Rightarrow> nat \<Rightarrow> bool \<Rightarrow> bool \<Rightarrow> world" where
  "testWorld activeIds downAt eligible accepts =
     \<lparr>onGetActivePaymentIds = (\<lambda>t. if t < downAt then Inr activeIds else Inl (Error ''rpc'')),
      onCanProcessPayment = (\<lambda>t i. if t < downAt then Inr eligible else Inl (Error ''rpc'')),
      onRecurringPayments = (\<lambda>t i. if t < downAt then Inr testPayment else Inl (Error ''rpc'')),
      onProcessRecurringPayment =
        (\<lambda>t i. if accepts then Inr (Tx ''0x51'') else Inl (Error ''revert'')),
      onProcessMultiplePayments =
        (\<lambda>t is. if accepts then Inr (Tx ''0xb7'') else Inl (Error ''revert'')),
      onTxWait = (\<lambda>t x. Inr ()),
      onGetBalance = (\<lambda>t. if t < downAt then Inr 50 else Inl (Error ''rpc'')),
      onGetContractBalance = (\<lambda>t. if t < downAt then Inr 2 else Inl (Error ''rpc'')),
      onAxiosPost = (\<lambda>t d. Inr ()),
      dateNow = (\<lambda>t. 0),
      parseEther = (\<lambda>x. if x = ''0.1'' then Inr 100 else Inl (Error ''invalid''))\<rparr>"

text \<open>The state after \<open>n\<close> scan ticks from a given state.\<close>

fun scanTicks :: "nat \<Rightarrow> config \<Rightarrow> world \<Rightarrow> agent \<Rightarrow> agent" where
  "scanTicks 0 cfg w s = s"
| "scanTicks (Suc n) cfg w s = scanTicks n cfg w (snd (checkAndProcessPayments cfg w s))"

section \<open>Properties\<close>

subsection \<open>What the outside interactions leave alone\<close>

lemma extCall_fields [simp]:
  "retryQueue (extCall c s) = retryQueue s"
  "isProcessing (extCall c s) = isProcessing s"
  "console (extCall c s) = console s"
  "calls (extCall c s) = calls s @ [c]"
  "clock (extCall c s) = Suc (clock s)"
  by (simp_all add: extCall_def)

lemma logLine_fields [simp]:
  "retryQueue (logLine l s) = retryQueue s"
  "isProcessing (logLine l s) = isProcessing s"
  "console (logLine l s) = console s @ [l]"
  "calls (logLine l s) = calls s"
  "clock (logLine l s) = clock s"
  by (simp_all add: logLine_def)

lemma sendWebhook_fields [simp]:
  "retryQueue (sendWebhook cfg w d s) = retryQueue s"
  "isProcessing (sendWebhook cfg w d s) = isProcessing s"
  by (simp_all add: sendWebhook_def split: sum.splits)

lemma gateway_calls [simp]:
  "getActivePaymentIds w s = (onGetActivePaymentIds w (clock s), extCall GetActivePaymentIds s)"
  "canProcessPayment w i s = (onCanProcessPayment w (clock s) i, extCall (CanProcessPayment i) s)"
  "recurringPayments w i s = (onRecurringPayments w (clock s) i, extCall (RecurringPayments i) s)"
  "processRecurringPayment w i s =
     (onProcessRecurringPayment w (clock s) i, extCall (ProcessRecurringPayment i) s)"
  "processMultiplePayments w is s =
     (onProcessMultiplePayments w (clock s) is, extCall (ProcessMultiplePayments is) s)"
  "txWait w t s = (onTxWait w (clock s) t, extCall (TxWait t) s)"
  "getBalance w s = (onGetBalance w (clock s), extCall GetBalance s)"
  "getContractBalance w s = (onGetContractBalance w (clock s), extCall GetContractBalance s)"
  by (simp_all add: getActivePaymentIds_def canProcessPayment_def recurringPayments_def
      processRecurringPayment_def processMultiplePayments_def txWait_def getBalance_def
      getContractBalance_def)

subsection \<open>The queue after each operation\<close>








lemma single_try_queue:
  "retryQueue (snd (processSinglePayment_try cfg w i s)) =
     (case fst (processSinglePayment_try cfg w i s) of
        Inl e \<Rightarrow> retryQueue s
      | Inr u \<Rightarrow> mdelete i (retryQueue s))"
  by (simp add: processSinglePayment_try_def Let_def split: sum.splits)

lemma single_catch_queue:
  "retryQueue (snd (processSinglePayment_catch cfg w i s)) =
     (let currentRetries = (case mget (retryQueue s) i of None \<Rightarrow> 0 | Some n \<Rightarrow> n)
      in if currentRetries < MAX_RETRIES then mset i (currentRetries + 1) (retryQueue s)
         else retryQueue s)"
  by (simp add: processSinglePayment_catch_def Let_def split: sum.splits)

text \<open>
  The single path deletes the entry after a success; after a failure it writes the count
  read plus one when the count read is below \<open>MAX_RETRIES\<close>, and leaves the queue as it
  is otherwise.
\<close>

lemma single_queue:
  "retryQueue (snd (processSinglePayment cfg w i s)) =
     (case fst (processSinglePayment_try cfg w i s) of
        Inr u \<Rightarrow> mdelete i (retryQueue s)
      | Inl e \<Rightarrow>
          (let currentRetries = (case mget (retryQueue s) i of None \<Rightarrow> 0 | Some n \<Rightarrow> n)
           in if currentRetries < MAX_RETRIES then mset i (currentRetries + 1) (retryQueue s)
              else retryQueue s))"
proof (cases "processSinglePayment_try cfg w i s")
  case (Pair r s1)
  have q: "retryQueue s1 = (case r of Inl e \<Rightarrow> retryQueue s | Inr u \<Rightarrow> mdelete i (retryQueue s))"
    using single_try_queue [of cfg w i s] Pair by simp
  show ?thesis
  proof (cases r)
    case (Inl e)
    with Pair q show ?thesis
      by (simp add: processSinglePayment_def single_catch_queue Let_def)
  next
    case (Inr u)
    with Pair q show ?thesis
      by (simp add: processSinglePayment_def)
  qed
qed






lemma retryEntry_catch_queue:
  "retryQueue (snd (retryEntry_catch cfg w i n s)) =
     (if n + 1 \<ge> MAX_RETRIES then mdelete i (retryQueue s) else mset i (n + 1) (retryQueue s))"
  by (simp add: retryEntry_catch_def Let_def split: sum.splits)




lemma checkPayment_try_frame:
  "retryQueue (snd (checkPayment_try cfg w i s)) = retryQueue s"
  "isProcessing (snd (checkPayment_try cfg w i s)) = isProcessing s"
  by (simp_all add: checkPayment_try_def Let_def split: sum.splits timing.splits)

lemma checkEach_frame:
  "retryQueue (snd (checkEach cfg w is acc s)) = retryQueue s \<and>
   isProcessing (snd (checkEach cfg w is acc s)) = isProcessing s"
proof (induction "is" arbitrary: acc s)
  case Nil
  then show ?case by simp
next
  case (Cons i "is")
  show ?case
  proof (cases "checkPayment_try cfg w i s")
    case (Pair r s1)
    with checkPayment_try_frame [of cfg w i s]
    have "retryQueue s1 = retryQueue s" "isProcessing s1 = isProcessing s"
      by simp_all
    with Pair Cons.IH show ?thesis
      by (cases r) simp_all
  qed
qed











subsection \<open>The bound on the attempt counts\<close>






subsection \<open>The processing guard\<close>

lemma single_guard:
  "isProcessing (snd (processSinglePayment cfg w i s)) = isProcessing s"
  by (simp add: processSinglePayment_def processSinglePayment_try_def
      processSinglePayment_catch_def Let_def split: sum.splits)

lemma individually_guard:
  "isProcessing (snd (processIndividually cfg w is s)) = isProcessing s"
proof (induction "is" arbitrary: s)
  case Nil
  show ?case by simp
next
  case (Cons i "is")
  show ?case
  proof (cases "processSinglePayment cfg w i s")
    case (Pair r s1)
    with single_guard [of cfg w i s] have "isProcessing s1 = isProcessing s" by simp
    with Pair Cons.IH [of s1] show ?thesis by (cases r) simp_all
  qed
qed

lemma batch_guard:
  "isProcessing (snd (processBatchPayments cfg w is s)) = isProcessing s"
  by (simp add: processBatchPayments_def processBatchPayments_try_def Let_def
      individually_guard split: sum.splits)

lemma dispatch_guard:
  "isProcessing (snd (dispatch cfg w ps s)) = isProcessing s"
  by (simp add: dispatch_def batch_guard individually_guard)

lemma check_try_guard:
  "isProcessing (snd (checkAndProcessPayments_try cfg w s))"
proof (cases "onGetActivePaymentIds w (clock s)")
  case (Inl e)
  then show ?thesis by (simp add: checkAndProcessPayments_try_def)
next
  case (Inr activeIds)
  define s1 where "s1 = extCall GetActivePaymentIds (s\<lparr>isProcessing := True\<rparr>)"
  obtain ps s2 where ce: "checkEach cfg w activeIds [] s1 = (ps, s2)"
    by (cases "checkEach cfg w activeIds [] s1")
  have "isProcessing s2"
    using checkEach_frame [of cfg w activeIds "[]" s1] ce by (simp add: s1_def)
  with Inr ce dispatch_guard [of cfg w ps s2] show ?thesis
    by (simp add: checkAndProcessPayments_try_def s1_def)
qed

text \<open>
  C3. A scan tick that begins while \<open>isProcessing\<close> is set returns at once without an
  error: no outside interaction is made and nothing of the state changes but one console
  line. A tick that begins with the flag clear holds the flag to the end of its \<open>try\<close>
  block, always resolves, and ends with the flag clear, whatever the outside answers
  (the empty list of active payments and thrown errors included).
\<close>

theorem processing_guard:
  "(isProcessing s \<longrightarrow>
      checkAndProcessPayments cfg w s = (Inr (), s\<lparr>console := console s @ [LogAlreadyProcessing]\<rparr>))
   \<and> (\<not> isProcessing s \<longrightarrow>
        isProcessing (snd (checkAndProcessPayments_try cfg w s))
        \<and> fst (checkAndProcessPayments cfg w s) = Inr ()
        \<and> \<not> isProcessing (snd (checkAndProcessPayments cfg w s)))"
proof -
  have skip: "checkAndProcessPayments cfg w s =
      (Inr (), s\<lparr>console := console s @ [LogAlreadyProcessing]\<rparr>)" if "isProcessing s"
    using that by (simp add: checkAndProcessPayments_def logLine_def)
  have released: "fst (checkAndProcessPayments cfg w s) = Inr ()
      \<and> \<not> isProcessing (snd (checkAndProcessPayments cfg w s))" if "\<not> isProcessing s"
  proof (cases "checkAndProcessPayments_try cfg w s")
    case (Pair r s1)
    with that show ?thesis
      by (cases r) (simp_all add: checkAndProcessPayments_def)
  qed
  from skip released check_try_guard [of cfg w s] show ?thesis by blast
qed

text \<open>
  The guard at concrete ticks: one that finds the flag set, one whose first read throws,
  and one that returns early on an empty list of active payments.
\<close>

theorem processing_guard_witness:
  "isProcessing (initial\<lparr>isProcessing := True\<rparr>)
   \<and> checkAndProcessPayments testConfig (testWorld [7] 100 True True)
         (initial\<lparr>isProcessing := True\<rparr>) =
       (Inr (), initial\<lparr>isProcessing := True, console := [LogAlreadyProcessing]\<rparr>)
   \<and> \<not> isProcessing initial
   \<and> fst (checkAndProcessPayments testConfig (testWorld [7] 0 True True) initial) = Inr ()
   \<and> \<not> isProcessing (snd (checkAndProcessPayments testConfig (testWorld [7] 0 True True) initial))
   \<and> fst (checkAndProcessPayments testConfig (testWorld [] 100 True True) initial) = Inr ()
   \<and> \<not> isProcessing (snd (checkAndProcessPayments testConfig (testWorld [] 100 True True) initial))"
  using processing_guard [of "initial\<lparr>isProcessing := True\<rparr>" testConfig "testWorld [7] 100 True True"]
    processing_guard [of initial testConfig "testWorld [7] 0 True True"]
    processing_guard [of initial testConfig "testWorld [] 100 True True"]
  by (simp add: initial_def)

subsection \<open>The single path at the retry ceiling\<close>

text \<open>
  C2 at a concrete run. Payment 7 is eligible and its submission is refused at every
  tick. After three scan ticks its count is 3. The fourth tick fails again with the
  recorded count at \<open>MAX_RETRIES\<close>: the entry is still in the queue (the failure
  handling of \<open>processSinglePayment\<close> never deletes), the payment has been submitted four
  times, and the next drain submits it a fifth time.
\<close>

theorem entry_kept_at_the_ceiling:
  "retryQueue (scanTicks 3 testConfig (testWorld [7] 100 True False) initial) = [(7, 3)]
   \<and> retryQueue (scanTicks 4 testConfig (testWorld [7] 100 True False) initial) = [(7, 3)]
   \<and> submissionsOf 7 (calls (scanTicks 4 testConfig (testWorld [7] 100 True False) initial)) = 4
   \<and> submissionsOf 7
         (calls (snd (processRetryQueue testConfig (testWorld [7] 100 True False)
                        (scanTicks 4 testConfig (testWorld [7] 100 True False) initial)))) = 5"
  by code_simp

subsection \<open>A success followed by a failed read, in the drain\<close>

text \<open>
  A success of the single path or of the batch deletes the entry, and a later failure of
  the single path starts again at count 1; so does a success of the drain when no webhook
  is configured.
\<close>

lemma mget_mdelete: "mget (mdelete k q) k' = (if k' = k then None else mget q k')"
  by (induction q) auto

lemma mget_mset: "mget (mset k v q) k' = (if k' = k then Some v else mget q k')"
  by (induction q) auto

lemma mget_fold_mdelete:
  "mget (fold mdelete ks q) k = (if k \<in> set ks then None else mget q k)"
  by (induction ks arbitrary: q) (auto simp: mget_mdelete)

lemma single_success_clears:
  assumes "fst (processSinglePayment_try cfg w i s) = Inr u"
  shows "mget (retryQueue (snd (processSinglePayment cfg w i s))) i = None"
  using assms by (simp add: single_queue mget_mdelete)

lemma single_failure_after_clearing:
  assumes "mget (retryQueue s) i = None"
    and "fst (processSinglePayment_try cfg w i s) = Inl e"
  shows "mget (retryQueue (snd (processSinglePayment cfg w i s))) i = Some 1"
  using assms by (simp add: single_queue mget_mset MAX_RETRIES_def)

lemma batch_success_clears:
  assumes "fst (processBatchPayments_try cfg w is s) = Inr u" and "i \<in> set is"
  shows "mget (retryQueue (snd (processBatchPayments cfg w is s))) i = None"
proof (cases "processBatchPayments_try cfg w is s")
  case (Pair r s1)
  with assms(1) have r: "r = Inr u" by simp
  have "retryQueue s1 = fold mdelete is (retryQueue s)"
    using Pair r
    by (simp add: processBatchPayments_try_def Let_def split: sum.splits if_splits) auto
  with Pair r assms(2) show ?thesis
    by (simp add: processBatchPayments_def mget_fold_mdelete)
qed

lemma drain_success_clears_without_webhook:
  assumes "webhookUrl cfg = []"
    and "onCanProcessPayment w (clock s) i = Inr True"
    and "onProcessRecurringPayment w (Suc (clock s)) i = Inr t"
    and "onTxWait w (Suc (Suc (clock s))) t = Inr ()"
  shows "mget (retryQueue (snd (retryEntry cfg w i n s))) i = None"
  using assms by (simp add: retryEntry_def retryEntry_try_def mget_mdelete)

text \<open>
  C4 at a concrete drain. The queue holds payment 7 with count 1 and a webhook is
  configured. The eligibility check, the submission and the wait for confirmation
  succeed; the record read for the success notification then fails. The drain resolves
  with the entry still in the queue, its count raised to 2.
\<close>

theorem drain_counts_a_confirmed_payment_as_failed:
  "onProcessRecurringPayment (testWorld [7] 3 True True) 1 7 = Inr (Tx ''0x51'')
   \<and> onTxWait (testWorld [7] 3 True True) 2 (Tx ''0x51'') = Inr ()
   \<and> processRetryQueue testConfig (testWorld [7] 3 True True)
         (initial\<lparr>retryQueue := [(7, 1)]\<rparr>) =
       (Inr (),
        \<lparr>isProcessing = False, retryQueue = [(7, 2)], clock = 4,
         calls = [CanProcessPayment 7, ProcessRecurringPayment 7, TxWait (Tx ''0x51''),
                  RecurringPayments 7],
         console = [LogRetrying 7 1, LogErrorRetrying 7]\<rparr>)"
  by code_simp

subsection \<open>The fallback of a failed batch\<close>

text \<open>
  When the batch fails and every call of the single path resolves, the identifiers of
  the batch enter the single path once each, in the order of the batch.
\<close>

lemma singlePathEntries_append:
  "singlePathEntries (xs @ ys) = singlePathEntries xs @ singlePathEntries ys"
  by (induction xs rule: singlePathEntries.induct) simp_all

lemma sendWebhook_console:
  "singlePathEntries (console (sendWebhook cfg w d s)) = singlePathEntries (console s)"
  by (simp add: sendWebhook_def singlePathEntries_append split: sum.splits)

lemma single_enters_once:
  "singlePathEntries (console (snd (processSinglePayment cfg w i s))) =
     singlePathEntries (console s) @ [i]"
  by (simp add: processSinglePayment_def processSinglePayment_try_def
      processSinglePayment_catch_def Let_def sendWebhook_console singlePathEntries_append
      split: sum.splits)

lemma individually_enters_each_once:
  "fst (processIndividually cfg w is s) = Inr u \<Longrightarrow>
   singlePathEntries (console (snd (processIndividually cfg w is s))) =
     singlePathEntries (console s) @ is"
proof (induction "is" arbitrary: s)
  case Nil
  show ?case by simp
next
  case (Cons i "is")
  show ?case
  proof (cases "processSinglePayment cfg w i s")
    case (Pair r s1)
    have one: "singlePathEntries (console s1) = singlePathEntries (console s) @ [i]"
      using single_enters_once [of cfg w i s] Pair by simp
    show ?thesis
    proof (cases r)
      case (Inl e)
      with Pair Cons.prems show ?thesis by simp
    next
      case (Inr u')
      with Pair Cons.prems have "fst (processIndividually cfg w is s1) = Inr u" by simp
      from Cons.IH [OF this] Pair Inr one show ?thesis by simp
    qed
  qed
qed

lemma batch_fallback_in_order:
  assumes "fst (processBatchPayments_try cfg w is s) = Inl e"
    and "fst (processBatchPayments cfg w is s) = Inr u"
  shows "singlePathEntries (console (snd (processBatchPayments cfg w is s))) =
     singlePathEntries (console s) @ is"
proof (cases "processBatchPayments_try cfg w is s")
  case (Pair r s1)
  with assms(1) have r: "r = Inl e" by simp
  have c: "console s1 = console s"
    using Pair r by (simp add: processBatchPayments_try_def Let_def split: sum.splits) auto
  from Pair r assms(2) have "fst (processIndividually cfg w is (logLine LogFallingBack s1)) = Inr u"
    by (simp add: processBatchPayments_def)
  from individually_enters_each_once [OF this] Pair r c show ?thesis
    by (simp add: processBatchPayments_def singlePathEntries_append)
qed

text \<open>
  C5 at a concrete batch. The batch \<open>[1, 2, 3, 4]\<close> is refused; payment 1 already has
  count 3 and a webhook is configured. In the fallback the single submission of payment
  1 is refused too, and the record read of its failure handling fails: the error leaves
  \<open>processSinglePayment\<close> and \<open>processBatchPayments\<close>, and payments 2, 3 and 4 never
  enter the single path.
\<close>

theorem batch_fallback_cut_short:
  "fst (processBatchPayments testConfig (testWorld [1, 2, 3, 4] 4 True False) [1, 2, 3, 4]
          (initial\<lparr>retryQueue := [(1, 3)]\<rparr>)) = Inl (Error ''rpc'')
   \<and> singlePathEntries
         (console (snd (processBatchPayments testConfig (testWorld [1, 2, 3, 4] 4 True False)
                          [1, 2, 3, 4] (initial\<lparr>retryQueue := [(1, 3)]\<rparr>)))) = [1]"
  by code_simp

subsection \<open>Errors that leave an operation\<close>

text \<open>
  The scan tick, the balance tick and the analysis always resolve. The single path
  resolves when no webhook is configured, and when the count of its payment is below
  \<open>MAX_RETRIES\<close>.
\<close>

lemma check_resolves: "fst (checkAndProcessPayments cfg w s) = Inr ()"
  by (simp add: checkAndProcessPayments_def split: prod.splits sum.splits)

lemma checkBalance_resolves: "fst (checkBalance cfg w s) = Inr ()"
  by (simp add: checkBalance_def split: prod.splits sum.splits)

lemma analyzePaymentPatterns_resolves: "fst (analyzePaymentPatterns w s) = Inr ()"
  by (simp add: analyzePaymentPatterns_def split: prod.splits sum.splits)

lemma single_resolves_without_webhook:
  "webhookUrl cfg = [] \<Longrightarrow> fst (processSinglePayment cfg w i s) = Inr ()"
  by (simp add: processSinglePayment_def processSinglePayment_catch_def Let_def
      split: prod.splits sum.splits)

lemma single_resolves_below_ceiling:
  assumes "mget (retryQueue s) i = None \<or> (\<exists>n < MAX_RETRIES. mget (retryQueue s) i = Some n)"
  shows "fst (processSinglePayment cfg w i s) = Inr ()"
proof (cases "processSinglePayment_try cfg w i s")
  case (Pair r s1)
  show ?thesis
  proof (cases r)
    case (Inl e)
    have "retryQueue s1 = retryQueue s"
      using single_try_queue [of cfg w i s] Pair Inl by simp
    with assms Pair Inl show ?thesis
      by (auto simp: processSinglePayment_def processSinglePayment_catch_def Let_def
          MAX_RETRIES_def)
  next
    case (Inr u)
    with Pair show ?thesis by (simp add: processSinglePayment_def)
  qed
qed

text \<open>
  C7 at concrete calls, with a webhook configured and every read of the contract
  failing. \<open>processSinglePayment\<close> on a payment whose count is 3 rejects, and so does
  \<open>processRetryQueue\<close> on a queue whose first entry has count 2 (the second entry is
  not visited): in both the failure handling reads the payment record outside any
  \<open>try\<close>.
\<close>

theorem failure_handling_rejects:
  "fst (processSinglePayment testConfig (testWorld [7] 0 True False) 7
          (initial\<lparr>retryQueue := [(7, 3)]\<rparr>)) = Inl (Error ''rpc'')
   \<and> processRetryQueue testConfig (testWorld [7] 0 True False)
         (initial\<lparr>retryQueue := [(7, 2), (8, 1)]\<rparr>) =
       (Inl (Error ''rpc''),
        \<lparr>isProcessing = False, retryQueue = [(8, 1)], clock = 2,
         calls = [CanProcessPayment 7, RecurringPayments 7],
         console = [LogRetrying 7 2, LogErrorRetrying 7, LogRemovingFromQueue 7]\<rparr>)"
  by code_simp

subsection \<open>The choice of the submission mode\<close>

lemma batchCalls_append [simp]: "batchCalls (xs @ ys) = batchCalls xs @ batchCalls ys"
  by (simp add: batchCalls_def)

lemma batchCalls_simps [simp]:
  "batchCalls [] = []"
  "batchCalls (c # cs) = (if isBatchCall c then c # batchCalls cs else batchCalls cs)"
  by (simp_all add: batchCalls_def)








subsection \<open>The due time\<close>




subsection \<open>The eligibility re-check of the drain\<close>

lemma retryEntry_not_eligible:
  assumes "onCanProcessPayment w (clock s) i = Inr False"
  shows "retryEntry cfg w i n s =
    (Inr (), logLine (LogKeepInQueue i) (extCall (CanProcessPayment i) (logLine (LogRetrying i n) s)))"
  using assms by (simp add: retryEntry_def retryEntry_try_def)

lemma retryEntry_recheck_throws:
  assumes "onCanProcessPayment w (clock s) i = Inl e"
  shows "retryQueue (snd (retryEntry cfg w i n s)) =
    (if n + 1 \<ge> MAX_RETRIES then mdelete i (retryQueue s) else mset i (n + 1) (retryQueue s))"
  using assms by (simp add: retryEntry_def retryEntry_try_def retryEntry_catch_queue)

lemma retryLoop_none_eligible:
  assumes "\<forall>t j. t < clock s + length es \<longrightarrow> onCanProcessPayment w t j = Inr False"
  shows "fst (retryLoop cfg w es s) = Inr ()
       \<and> retryQueue (snd (retryLoop cfg w es s)) = retryQueue s
       \<and> calls (snd (retryLoop cfg w es s)) = calls s @ map (\<lambda>en. CanProcessPayment (fst en)) es"
  using assms
proof (induction es arbitrary: s)
  case Nil
  show ?case by simp
next
  case (Cons en es)
  obtain i n where en: "en = (i, n)" by (cases en)
  define s1 where
    "s1 = logLine (LogKeepInQueue i) (extCall (CanProcessPayment i) (logLine (LogRetrying i n) s))"
  from Cons.prems have now: "onCanProcessPayment w (clock s) i = Inr False"
    by simp
  have step: "retryEntry cfg w i n s = (Inr (), s1)"
    unfolding s1_def using now by (rule retryEntry_not_eligible)
  have "\<forall>t j. t < clock s1 + length es \<longrightarrow> onCanProcessPayment w t j = Inr False"
    using Cons.prems by (simp add: s1_def)
  from Cons.IH [OF this] step en show ?case
    by (simp add: s1_def)
qed

text \<open>
  C8, as the code has it. In a drain, an entry whose eligibility re-check answers false
  is left as it is and the drain goes on with the next entry: when every re-check of a
  drain answers false the queue is unchanged, the drain resolves, and each entry has been
  re-checked once, in order. A re-check that throws is handled as a failed attempt: the
  entry's count is raised by one, or the entry is deleted when the raised count reaches
  \<open>MAX_RETRIES\<close>.
\<close>

theorem drain_recheck:
  "(onCanProcessPayment w (clock s) i = Inr False \<longrightarrow>
      retryEntry cfg w i n s =
        (Inr (), logLine (LogKeepInQueue i)
                   (extCall (CanProcessPayment i) (logLine (LogRetrying i n) s))))
   \<and> (onCanProcessPayment w (clock s) i = Inl e \<longrightarrow>
        retryQueue (snd (retryEntry cfg w i n s)) =
          (if n + 1 \<ge> MAX_RETRIES then mdelete i (retryQueue s)
           else mset i (n + 1) (retryQueue s)))
   \<and> ((\<forall>t j. t < clock s + length (retryQueue s) \<longrightarrow> onCanProcessPayment w t j = Inr False) \<longrightarrow>
        fst (processRetryQueue cfg w s) = Inr ()
        \<and> retryQueue (snd (processRetryQueue cfg w s)) = retryQueue s
        \<and> calls (snd (processRetryQueue cfg w s)) =
            calls s @ map (\<lambda>en. CanProcessPayment (fst en)) (retryQueue s))"
proof -
  have "fst (processRetryQueue cfg w s) = Inr ()
        \<and> retryQueue (snd (processRetryQueue cfg w s)) = retryQueue s
        \<and> calls (snd (processRetryQueue cfg w s)) =
            calls s @ map (\<lambda>en. CanProcessPayment (fst en)) (retryQueue s)"
    if "\<forall>t j. t < clock s + length (retryQueue s) \<longrightarrow> onCanProcessPayment w t j = Inr False"
    using retryLoop_none_eligible [OF that, of cfg] by (simp add: processRetryQueue_def)
  with retryEntry_not_eligible [of w s i cfg n] retryEntry_recheck_throws [of w s i e cfg n]
  show ?thesis by blast
qed

text \<open>
  A drain of two entries that are both not yet eligible, and an entry with count 2 whose
  re-check throws.
\<close>

theorem drain_recheck_witness:
  "onCanProcessPayment (testWorld [7] 100 False False) 0 7 = Inr False
   \<and> onCanProcessPayment (testWorld [7] 100 False False) 1 8 = Inr False
   \<and> fst (processRetryQueue testConfig (testWorld [7] 100 False False)
            (initial\<lparr>retryQueue := [(7, 1), (8, 2)]\<rparr>)) = Inr ()
   \<and> retryQueue (snd (processRetryQueue testConfig (testWorld [7] 100 False False)
                        (initial\<lparr>retryQueue := [(7, 1), (8, 2)]\<rparr>))) = [(7, 1), (8, 2)]
   \<and> calls (snd (processRetryQueue testConfig (testWorld [7] 100 False False)
                   (initial\<lparr>retryQueue := [(7, 1), (8, 2)]\<rparr>))) =
       [CanProcessPayment 7, CanProcessPayment 8]
   \<and> onCanProcessPayment (testWorld [7] 0 False False) (clock initial) 7 = Inl (Error ''rpc'')
   \<and> retryQueue (snd (retryEntry testConfig (testWorld [7] 0 False False) 7 2
                        (initial\<lparr>retryQueue := [(7, 2), (8, 1)]\<rparr>))) = [(8, 1)]"
proof -
  let ?s = "initial\<lparr>retryQueue := [(7, 1), (8, 2)]\<rparr>"
  let ?w = "testWorld [7] 100 False False"
  have quiet: "\<forall>t j. t < clock ?s + length (retryQueue ?s) \<longrightarrow> onCanProcessPayment ?w t j = Inr False"
    by (simp add: initial_def testWorld_def)
  have start: "calls ?s = []" "retryQueue ?s = [(7, 1), (8, 2)]" "calls initial = []"
    by (simp_all add: initial_def)
  from drain_recheck [of ?w ?s 7 testConfig 1 "Error ''rpc''"] quiet
  have a: "fst (processRetryQueue testConfig ?w ?s) = Inr ()
     \<and> retryQueue (snd (processRetryQueue testConfig ?w ?s)) = retryQueue ?s
     \<and> calls (snd (processRetryQueue testConfig ?w ?s)) =
         calls ?s @ map (\<lambda>en. CanProcessPayment (fst en)) (retryQueue ?s)"
    by blast
  let ?d = "initial\<lparr>retryQueue := [(7, 2), (8, 1)]\<rparr>"
  have down: "onCanProcessPayment (testWorld [7] 0 False False) (clock ?d) 7 = Inl (Error ''rpc'')"
    "onCanProcessPayment (testWorld [7] 0 False False) (clock initial) 7 = Inl (Error ''rpc'')"
    by (simp_all add: testWorld_def)
  from drain_recheck [of "testWorld [7] 0 False False" ?d 7 testConfig 2 "Error ''rpc''"] down(1)
  have b: "retryQueue (snd (retryEntry testConfig (testWorld [7] 0 False False) 7 2 ?d)) = [(8, 1)]"
    by (simp add: MAX_RETRIES_def initial_def)
  have asked: "onCanProcessPayment ?w 0 7 = Inr False" "onCanProcessPayment ?w 1 8 = Inr False"
    by (simp_all add: testWorld_def)
  from asked a b down(2) show ?thesis
    by (simp add: start)
qed

text \<open>
  C8 as the specification states it (a re-check that fails with a read error leaves the
  entry without penalty) fails: the re-check of payment 7 throws and its count goes from
  1 to 2.
\<close>

theorem recheck_error_is_counted:
  "onCanProcessPayment (testWorld [7] 0 True False) 0 7 = Inl (Error ''rpc'')
   \<and> processRetryQueue (testConfig\<lparr>webhookUrl := []\<rparr>) (testWorld [7] 0 True False)
        (initial\<lparr>retryQueue := [(7, 1)]\<rparr>) =
      (Inr (),
       \<lparr>isProcessing = False, retryQueue = [(7, 2)], clock = 1,
        calls = [CanProcessPayment 7],
        console = [LogRetrying 7 1, LogErrorRetrying 7]\<rparr>)"
  by code_simp

subsection \<open>The configuration fields that are not read\<close>

lemma sendWebhook_config:
  assumes "webhookUrl c1 = webhookUrl c2"
  shows "sendWebhook c1 = sendWebhook c2"
proof (intro ext)
  fix w d s
  show "sendWebhook c1 w d s = sendWebhook c2 w d s"
    unfolding sendWebhook_def assms ..
qed

lemma single_config:
  assumes "webhookUrl c1 = webhookUrl c2"
  shows "processSinglePayment c1 = processSinglePayment c2"
proof (intro ext)
  fix w i s
  show "processSinglePayment c1 w i s = processSinglePayment c2 w i s"
    unfolding processSinglePayment_def processSinglePayment_try_def
      processSinglePayment_catch_def assms sendWebhook_config [OF assms] ..
qed

lemma individually_config:
  assumes "webhookUrl c1 = webhookUrl c2"
  shows "processIndividually c1 w is s = processIndividually c2 w is s"
  by (induction "is" arbitrary: s)
    (simp_all add: single_config [OF assms] split: prod.splits sum.splits)

lemma batch_config:
  assumes "webhookUrl c1 = webhookUrl c2"
  shows "processBatchPayments c1 = processBatchPayments c2"
proof (intro ext)
  fix w "is" s
  have ind: "processIndividually c1 = processIndividually c2"
    by (intro ext) (rule individually_config [OF assms])
  show "processBatchPayments c1 w is s = processBatchPayments c2 w is s"
    unfolding processBatchPayments_def processBatchPayments_try_def assms
      sendWebhook_config [OF assms] ind ..
qed

lemma dispatch_config:
  assumes "webhookUrl c1 = webhookUrl c2"
  shows "dispatch c1 w ps s = dispatch c2 w ps s"
  by (simp add: dispatch_def batch_config [OF assms] individually_config [OF assms])

lemma checkPayment_config:
  assumes "webhookUrl c1 = webhookUrl c2"
  shows "checkPayment_try c1 = checkPayment_try c2"
proof (intro ext)
  fix w i s
  show "checkPayment_try c1 w i s = checkPayment_try c2 w i s"
    unfolding checkPayment_try_def assms sendWebhook_config [OF assms] ..
qed

lemma checkEach_config:
  assumes "webhookUrl c1 = webhookUrl c2"
  shows "checkEach c1 w is acc s = checkEach c2 w is acc s"
  by (induction "is" arbitrary: acc s)
    (simp_all add: checkPayment_config [OF assms] split: prod.splits sum.splits)

lemma check_config:
  assumes "webhookUrl c1 = webhookUrl c2"
  shows "checkAndProcessPayments c1 w s = checkAndProcessPayments c2 w s"
proof -
  have each: "checkEach c1 = checkEach c2"
    by (intro ext) (rule checkEach_config [OF assms])
  have mode: "dispatch c1 = dispatch c2"
    by (intro ext) (rule dispatch_config [OF assms])
  show ?thesis
    unfolding checkAndProcessPayments_def checkAndProcessPayments_try_def each mode ..
qed

lemma retryEntry_config:
  assumes "webhookUrl c1 = webhookUrl c2"
  shows "retryEntry c1 = retryEntry c2"
proof (intro ext)
  fix w i n s
  show "retryEntry c1 w i n s = retryEntry c2 w i n s"
    unfolding retryEntry_def retryEntry_try_def retryEntry_catch_def assms
      sendWebhook_config [OF assms] ..
qed

lemma retryLoop_config:
  assumes "webhookUrl c1 = webhookUrl c2"
  shows "retryLoop c1 w es s = retryLoop c2 w es s"
proof (induction es arbitrary: s)
  case Nil
  show ?case by simp
next
  case (Cons en es)
  obtain i n where "en = (i, n)" by (cases en)
  with Cons.IH show ?case
    by (simp add: retryEntry_config [OF assms] split: prod.splits sum.splits)
qed

lemma drain_config:
  assumes "webhookUrl c1 = webhookUrl c2"
  shows "processRetryQueue c1 w s = processRetryQueue c2 w s"
  by (simp add: processRetryQueue_def retryLoop_config [OF assms])

lemma checkBalancePayment_config:
  assumes "webhookUrl c1 = webhookUrl c2"
  shows "checkBalancePayment c1 = checkBalancePayment c2"
proof (intro ext)
  fix w b i s
  show "checkBalancePayment c1 w b i s = checkBalancePayment c2 w b i s"
    unfolding checkBalancePayment_def assms sendWebhook_config [OF assms] ..
qed

lemma checkBalanceEach_config:
  assumes "webhookUrl c1 = webhookUrl c2"
  shows "checkBalanceEach c1 w b is s = checkBalanceEach c2 w b is s"
  by (induction "is" arbitrary: s)
    (simp_all add: checkBalancePayment_config [OF assms] split: prod.splits sum.splits)

lemma checkBalance_config:
  assumes "webhookUrl c1 = webhookUrl c2" and "lowBalanceThreshold c1 = lowBalanceThreshold c2"
  shows "checkBalance c1 w s = checkBalance c2 w s"
proof -
  have each: "checkBalanceEach c1 = checkBalanceEach c2"
    by (intro ext) (rule checkBalanceEach_config [OF assms(1)])
  show ?thesis
    unfolding checkBalance_def checkBalance_try_def assms sendWebhook_config [OF assms(1)]
      each ..
qed

lemma fire_config:
  assumes "webhookUrl c1 = webhookUrl c2" and "lowBalanceThreshold c1 = lowBalanceThreshold c2"
  shows "fire c1 w f s = fire c2 w f s"
  by (cases f)
    (simp_all add: check_config [OF assms(1)] drain_config [OF assms(1)]
      checkBalance_config [OF assms])

lemma run_config:
  assumes "webhookUrl c1 = webhookUrl c2" and "lowBalanceThreshold c1 = lowBalanceThreshold c2"
  shows "run c1 w fs s = run c2 w fs s"
  by (induction fs arbitrary: s) (simp_all add: fire_config [OF assms] split: prod.splits)

text \<open>
  C10. Two configurations that differ only in \<open>retryLimit\<close> and
  \<open>batchProcessingThreshold\<close> give the same run: for every sequence of firings, every
  behaviour of the outside and every starting state, the outcomes of the firings and the
  final state (queue, guard, outside interactions and console) are equal; so are the
  results of the single and the batch path. The retry bound is the constant 3.
\<close>

theorem retryLimit_and_batchProcessingThreshold_not_read:
  "run (cfg\<lparr>retryLimit := r, batchProcessingThreshold := b\<rparr>) w fs s = run cfg w fs s
   \<and> processSinglePayment (cfg\<lparr>retryLimit := r, batchProcessingThreshold := b\<rparr>) w i s =
       processSinglePayment cfg w i s
   \<and> processBatchPayments (cfg\<lparr>retryLimit := r, batchProcessingThreshold := b\<rparr>) w is s =
       processBatchPayments cfg w is s
   \<and> MAX_RETRIES = 3"
proof -
  let ?cfg = "cfg\<lparr>retryLimit := r, batchProcessingThreshold := b\<rparr>"
  have same: "webhookUrl ?cfg = webhookUrl cfg" "lowBalanceThreshold ?cfg = lowBalanceThreshold cfg"
    by simp_all
  from run_config [OF same] single_config [OF same(1)] batch_config [OF same(1)]
  show ?thesis by (simp add: MAX_RETRIES_def)
qed


end
